theory Spec2Isabelle
  imports Main "HOL-Library.Sublist"
begin

section \<open>JavaScript values and built-ins used by the evaluation core\<close>

text \<open>
  The expectation functions and the runner handle tool responses typed \<open>unknown\<close>. The
  value model covers the primitives \<open>undefined\<close>, \<open>null\<close>, booleans, integer-valued
  numbers (of a magnitude that prints without an exponent, below \<open>1e21\<close>), BigInts and
  strings, arrays, and plain objects as property lists in
  enumeration order (property lookup takes the first entry of a key). Values are finite
  trees: functions, symbols, fractional numbers, cyclic object graphs and objects with
  accessors or a \<open>toJSON\<close> method are outside the model. Strings are lists of
  characters with the codes \<open>U+0000\<close> to \<open>U+00FF\<close>.
\<close>

datatype jsval =
    JUndefined
  | JNull
  | JBool bool
  | JNum int
  | JBigInt int
  | JStr string
  | JArr "jsval list"
  | JObj "(string \<times> jsval) list"

text \<open>
  A thrown value: an instance of \<open>Error\<close> (with its \<open>name\<close> and \<open>message\<close>), a value of
  the model, or a value that \<open>String\<close> cannot convert, such as an object without
  prototype (\<open>Object.create(null)\<close>) or one whose \<open>toString\<close> throws.
\<close>

datatype thrown =
    ThrownError string string
  | ThrownValue jsval
  | ThrownUnconvertible

definition newline :: string where
  "newline = [CHR 0x0A]"

definition digit_char :: "nat \<Rightarrow> char" where
  "digit_char d = char_of (48 + d)"

text \<open>Decimal rendering of integer-valued numbers, most significant digit first.\<close>

fun decimal_digits :: "nat \<Rightarrow> string \<Rightarrow> string" where
  "decimal_digits n acc =
     (if n < 10 then digit_char n # acc
      else decimal_digits (n div 10) (digit_char (n mod 10) # acc))"

definition nat_toString :: "nat \<Rightarrow> string" where
  "nat_toString n = decimal_digits n []"

definition Number_toString :: "int \<Rightarrow> string" where
  "Number_toString i =
     (if 0 \<le> i then nat_toString (nat i) else CHR ''-'' # nat_toString (nat (- i)))"

text \<open>\<open>Array.prototype.join\<close> on strings that are already converted.\<close>

fun join_strings :: "string \<Rightarrow> string list \<Rightarrow> string" where
  "join_strings sep [] = []"
| "join_strings sep [s] = s"
| "join_strings sep (s # t # ss) = s @ sep @ join_strings sep (t # ss)"

text \<open>
  \<open>String(v)\<close>. An array converts through \<open>join(',')\<close>, where \<open>undefined\<close> and \<open>null\<close>
  elements become the empty string; a plain object converts to \<open>[object Object]\<close>.
\<close>

fun ToString :: "jsval \<Rightarrow> string" where
  "ToString JUndefined = ''undefined''"
| "ToString JNull = ''null''"
| "ToString (JBool b) = (if b then ''true'' else ''false'')"
| "ToString (JNum n) = Number_toString n"
| "ToString (JBigInt n) = Number_toString n"
| "ToString (JStr s) = s"
| "ToString (JArr xs) =
     join_strings '','' (map (\<lambda>x. if x = JUndefined \<or> x = JNull then [] else ToString x) xs)"
| "ToString (JObj ps) = ''[object Object]''"

definition array_join :: "string \<Rightarrow> jsval list \<Rightarrow> string" where
  "array_join sep xs =
     join_strings sep (map (\<lambda>x. if x = JUndefined \<or> x = JNull then [] else ToString x) xs)"

text \<open>
  \<open>String(err)\<close> for a thrown value: \<open>Error.prototype.toString\<close> gives the name, the
  message, or \<open>name: message\<close>. On a value that cannot be converted, \<open>String\<close> itself
  throws a \<open>TypeError\<close>.
\<close>

fun String_of_thrown :: "thrown \<Rightarrow> thrown + string" where
  "String_of_thrown (ThrownError name msg) =
     Inr (if name = [] then msg else if msg = [] then name else name @ '': '' @ msg)"
| "String_of_thrown (ThrownValue v) = Inr (ToString v)"
| "String_of_thrown ThrownUnconvertible =
     Inl (ThrownError ''TypeError'' ''Cannot convert object to primitive value'')"

text \<open>\<open>err instanceof Error ? err.message : String(err)\<close>\<close>

definition thrown_message :: "thrown \<Rightarrow> thrown + string" where
  "thrown_message err =
     (case err of ThrownError name msg \<Rightarrow> Inr msg | other \<Rightarrow> String_of_thrown err)"

text \<open>Property read \<open>v.k\<close> (or \<open>v?.k\<close>) and the \<open>in\<close> operator, for the keys the code uses.\<close>

fun getProp :: "jsval \<Rightarrow> string \<Rightarrow> jsval" where
  "getProp (JObj ps) k = (case map_of ps k of Some v \<Rightarrow> v | None \<Rightarrow> JUndefined)"
| "getProp v k = JUndefined"

fun hasProp :: "jsval \<Rightarrow> string \<Rightarrow> bool" where
  "hasProp (JObj ps) k = (map_of ps k \<noteq> None)"
| "hasProp v k = False"

fun isNullish :: "jsval \<Rightarrow> bool" where
  "isNullish JUndefined = True"
| "isNullish JNull = True"
| "isNullish v = False"

fun typeof_object :: "jsval \<Rightarrow> bool" where
  "typeof_object JNull = True"
| "typeof_object (JArr xs) = True"
| "typeof_object (JObj ps) = True"
| "typeof_object v = False"

subsection \<open>\<open>JSON.stringify\<close>\<close>

definition hex_char :: "nat \<Rightarrow> char" where
  "hex_char d = (if d < 10 then char_of (48 + d) else char_of (87 + d))"

definition QuoteJSONChar :: "char \<Rightarrow> string" where
  "QuoteJSONChar c =
     (if c = CHR 0x22 then [CHR 0x5C, CHR 0x22]
      else if c = CHR 0x5C then [CHR 0x5C, CHR 0x5C]
      else if c = CHR 0x08 then [CHR 0x5C, CHR ''b'']
      else if c = CHR 0x09 then [CHR 0x5C, CHR ''t'']
      else if c = CHR 0x0A then [CHR 0x5C, CHR ''n'']
      else if c = CHR 0x0C then [CHR 0x5C, CHR ''f'']
      else if c = CHR 0x0D then [CHR 0x5C, CHR ''r'']
      else if of_char c < (32 :: nat)
        then [CHR 0x5C, CHR ''u'', CHR ''0'', CHR ''0'',
              hex_char (of_char c div 16), hex_char (of_char c mod 16)]
      else [c])"

definition QuoteJSONString :: "string \<Rightarrow> string" where
  "QuoteJSONString s = [CHR 0x22] @ concat (map QuoteJSONChar s) @ [CHR 0x22]"

text \<open>
  The serializer of \<open>JSON.stringify\<close> without replacer or indentation. It returns
  \<open>undefined\<close> (\<open>None\<close>) for \<open>undefined\<close>, writes \<open>null\<close> for an \<open>undefined\<close> array
  element, leaves out an object property whose value is \<open>undefined\<close>, and throws a
  \<open>TypeError\<close> on a BigInt.
\<close>

fun SerializeJSONProperty :: "jsval \<Rightarrow> thrown + string option"
  and SerializeJSONArray :: "jsval list \<Rightarrow> thrown + string list"
  and SerializeJSONObject :: "(string \<times> jsval) list \<Rightarrow> thrown + string list"
where
  "SerializeJSONProperty JUndefined = Inr None"
| "SerializeJSONProperty JNull = Inr (Some ''null'')"
| "SerializeJSONProperty (JBool b) = Inr (Some (if b then ''true'' else ''false''))"
| "SerializeJSONProperty (JNum n) = Inr (Some (Number_toString n))"
| "SerializeJSONProperty (JBigInt n) =
     Inl (ThrownError ''TypeError'' ''Do not know how to serialize a BigInt'')"
| "SerializeJSONProperty (JStr s) = Inr (Some (QuoteJSONString s))"
| "SerializeJSONProperty (JArr xs) =
     (case SerializeJSONArray xs of
        Inl e \<Rightarrow> Inl e
      | Inr parts \<Rightarrow> Inr (Some (''['' @ join_strings '','' parts @ '']'')))"
| "SerializeJSONProperty (JObj ps) =
     (case SerializeJSONObject ps of
        Inl e \<Rightarrow> Inl e
      | Inr parts \<Rightarrow> Inr (Some (''{'' @ join_strings '','' parts @ ''}'')))"
| "SerializeJSONArray [] = Inr []"
| "SerializeJSONArray (x # xs) =
     (case SerializeJSONProperty x of
        Inl e \<Rightarrow> Inl e
      | Inr s \<Rightarrow>
          (case SerializeJSONArray xs of
             Inl e \<Rightarrow> Inl e
           | Inr rest \<Rightarrow> Inr ((case s of None \<Rightarrow> ''null'' | Some t \<Rightarrow> t) # rest)))"
| "SerializeJSONObject [] = Inr []"
| "SerializeJSONObject ((k, v) # ps) =
     (case SerializeJSONProperty v of
        Inl e \<Rightarrow> Inl e
      | Inr s \<Rightarrow>
          (case SerializeJSONObject ps of
             Inl e \<Rightarrow> Inl e
           | Inr rest \<Rightarrow>
               Inr ((case s of None \<Rightarrow> [] | Some t \<Rightarrow> [QuoteJSONString k @ '':'' @ t]) @ rest)))"

definition JSON_stringify :: "jsval \<Rightarrow> thrown + string option" where
  "JSON_stringify v = SerializeJSONProperty v"


text \<open>
  A call site that returns \<open>JSON.stringify(v)\<close> as a string. The serializer yields
  \<open>undefined\<close> only for \<open>undefined\<close> itself (lemma \<open>JSON_stringify_defined\<close>), and
  every call below passes an array, an object or a non-nullish value, so the \<open>None\<close>
  branch is never taken; it is filled with the text \<open>String(undefined)\<close>.
\<close>

definition stringified :: "jsval \<Rightarrow> thrown + string" where
  "stringified v =
     (case JSON_stringify v of
        Inl e \<Rightarrow> Inl e
      | Inr None \<Rightarrow> Inr ''undefined''
      | Inr (Some s) \<Rightarrow> Inr s)"

section \<open>Text utilities (textUtils)\<close>

text \<open>The filter predicate of the content-block scan: \<open>text\<close> only has to be present.\<close>

definition isTextPart :: "jsval \<Rightarrow> bool" where
  "isTextPart c \<longleftrightarrow>
     \<not> isNullish c \<and> typeof_object c \<and> hasProp c ''type'' \<and>
     getProp c ''type'' = JStr ''text'' \<and> hasProp c ''text''"

definition textPartsOf :: "jsval list \<Rightarrow> jsval list" where
  "textPartsOf xs = map (\<lambda>c. getProp c ''text'') (filter isTextPart xs)"

fun extractTextFromResponse :: "jsval \<Rightarrow> thrown + string" where
  "extractTextFromResponse JUndefined = Inr []"
| "extractTextFromResponse JNull = Inr []"
| "extractTextFromResponse (JStr s) = Inr s"
| "extractTextFromResponse (JArr xs) =
     (let textParts = textPartsOf xs
      in if length textParts > 0 then Inr (array_join newline textParts)
         else stringified (JArr xs))"
| "extractTextFromResponse (JObj ps) =
     (let r = JObj ps;
          fromContent =
            (case getProp r ''content'' of
               JArr cs \<Rightarrow>
                 (let textParts = textPartsOf cs
                  in if length textParts > 0 then Some (array_join newline textParts) else None)
             | _ \<Rightarrow> None)
      in case fromContent of
           Some s \<Rightarrow> Inr s
         | None \<Rightarrow>
             if \<not> isNullish (getProp r ''structuredContent'') then
               (case getProp r ''structuredContent'' of
                  JStr s \<Rightarrow> Inr s
                | sc \<Rightarrow> stringified sc)
             else
               (case getProp r ''text'' of
                  JStr t \<Rightarrow> Inr t
                | _ \<Rightarrow> stringified r))"
| "extractTextFromResponse v = Inr (ToString v)"

text \<open>
  \<open>String.prototype.toLowerCase\<close>: the capital letters \<open>A\<close> to \<open>Z\<close> and \<open>U+00C0\<close> to
  \<open>U+00DE\<close> (without the multiplication sign \<open>U+00D7\<close>) move up by 32, every other
  character up to \<open>U+00FF\<close> stays.
\<close>

definition toLowerCaseChar :: "char \<Rightarrow> char" where
  "toLowerCaseChar c =
     (let n = (of_char c :: nat)
      in if (65 \<le> n \<and> n \<le> 90) \<or> (192 \<le> n \<and> n \<le> 222 \<and> n \<noteq> 215)
         then char_of (n + 32) else c)"

definition toLowerCase :: "string \<Rightarrow> string" where
  "toLowerCase s = map toLowerCaseChar s"

text \<open>\<open>text.includes(s)\<close> is \<^term>\<open>sublist s text\<close>.\<close>

definition findMissingSubstrings :: "string \<Rightarrow> string list \<Rightarrow> bool \<Rightarrow> string list" where
  "findMissingSubstrings text substrings caseSensitive =
     (let searchText = (if caseSensitive then text else toLowerCase text)
      in filter (\<lambda>substring.
           let searchSubstring = (if caseSensitive then substring else toLowerCase substring)
           in \<not> sublist searchSubstring searchText) substrings)"

text \<open>
  The regular-expression engine is the host's: \<open>RegExp_new pattern flags\<close> is
  \<open>new RegExp(pattern, flags)\<close>, which throws on a pattern that does not compile, and
  \<open>RegExp_test regex text\<close> is \<open>regex.test(text)\<close>.
\<close>

record 'r RegExpEngine =
  RegExp_new :: "string \<Rightarrow> string \<Rightarrow> thrown + 'r"
  RegExp_test :: "'r \<Rightarrow> string \<Rightarrow> bool"

definition findFailedPatterns :: "'r RegExpEngine \<Rightarrow> string \<Rightarrow> string list \<Rightarrow> string list" where
  "findFailedPatterns engine text patterns =
     filter (\<lambda>pattern.
       case RegExp_new engine pattern ''m'' of
         Inr regex \<Rightarrow> \<not> RegExp_test engine regex text
       | Inl error \<Rightarrow> True) patterns"

section \<open>Dataset types (datasetTypes)\<close>

datatype string_or_list = OneString string | ManyStrings "string list"

text \<open>
  An eval case as the code reads it at run time: the fields of the \<open>EvalCase\<close> interface
  (\<open>id\<close> is \<open>caseId\<close> here) and the \<open>expectedError\<close> property that the error expectation
  reads. An absent \<open>expectedExact\<close> or \<open>expectedError\<close> is \<open>JUndefined\<close>.
\<close>

record EvalCase =
  caseId :: string
  description :: "string option"
  toolName :: string
  args :: "(string \<times> jsval) list"
  expectedExact :: jsval
  expectedSchemaName :: "string option"
  judgeConfigId :: "string option"
  expectedTextContains :: "string_or_list option"
  expectedRegex :: "string_or_list option"
  metadata :: "(string \<times> jsval) list option"
  expectedError :: jsval

record EvalDataset =
  datasetName :: string
  cases :: "EvalCase list"

section \<open>Expectation functions\<close>

record EvalExpectationResult =
  pass :: bool
  details :: "string option"

definition textPreview :: "string \<Rightarrow> string" where
  "textPreview text = take 500 text @ (if length text > 500 then ''...'' else [])"

subsection \<open>Regex expectation\<close>

definition createRegexExpectation ::
  "'r RegExpEngine \<Rightarrow> 'ctx \<Rightarrow> EvalCase \<Rightarrow> jsval \<Rightarrow> thrown + EvalExpectationResult" where
  "createRegexExpectation engine context evalCase response =
     (case expectedRegex evalCase of
        None \<Rightarrow> Inr \<lparr>pass = True, details = Some ''No expectedRegex defined, skipping''\<rparr>
      | Some expected \<Rightarrow>
          (case extractTextFromResponse response of
             Inl e \<Rightarrow> Inl e
           | Inr text \<Rightarrow>
               (let patterns = (case expected of ManyStrings ps \<Rightarrow> ps | OneString p \<Rightarrow> [p]);
                    failed = findFailedPatterns engine text patterns
                in if length failed = 0 then
                     Inr \<lparr>pass = True,
                          details = Some (if length patterns = 1 then ''Text matches expected pattern''
                            else ''Text matches all '' @ nat_toString (length patterns) @
                                 '' expected patterns'')\<rparr>
                   else
                     (let failureDetails = join_strings newline (map (\<lambda>pattern.
                            case RegExp_new engine pattern [] of
                              Inr regex \<Rightarrow> ''  - Pattern: /'' @ pattern @ ''/''
                            | Inl error \<Rightarrow>
                                ''  - Invalid pattern: /'' @ pattern @ ''/ ('' @
                                (case error of ThrownError n m \<Rightarrow> m | other \<Rightarrow> ''syntax error'')
                                @ '')'') failed)
                      in Inr \<lparr>pass = False,
                              details = Some (''Failed to match '' @ nat_toString (length failed) @
                                '' pattern(s):'' @ newline @ failureDetails @ newline @ newline @
                                ''Response text:'' @ newline @ textPreview text)\<rparr>))))"

subsection \<open>Error expectation\<close>

text \<open>
  The substrings go through \<open>findMissingSubstrings\<close> with \<open>caseSensitive = false\<close>, which
  calls \<open>toLowerCase\<close> on each of them in order: the first element that is not a string
  raises a \<open>TypeError\<close> there.
\<close>

fun toLowerCase_TypeError :: "jsval \<Rightarrow> thrown" where
  "toLowerCase_TypeError JNull =
     ThrownError ''TypeError'' (''Cannot read properties of null (reading '' @ [CHR 0x27] @
       ''toLowerCase'' @ [CHR 0x27] @ '')'')"
| "toLowerCase_TypeError JUndefined =
     ThrownError ''TypeError'' (''Cannot read properties of undefined (reading '' @ [CHR 0x27] @
       ''toLowerCase'' @ [CHR 0x27] @ '')'')"
| "toLowerCase_TypeError v = ThrownError ''TypeError'' ''substring.toLowerCase is not a function''"

fun substrings_of :: "jsval list \<Rightarrow> thrown + string list" where
  "substrings_of [] = Inr []"
| "substrings_of (JStr s # xs) =
     (case substrings_of xs of Inl e \<Rightarrow> Inl e | Inr ss \<Rightarrow> Inr (s # ss))"
| "substrings_of (v # xs) = Inl (toLowerCase_TypeError v)"

definition createErrorExpectation ::
  "'ctx \<Rightarrow> EvalCase \<Rightarrow> jsval \<Rightarrow> thrown + EvalExpectationResult" where
  "createErrorExpectation context evalCase response =
     (let hasError = (getProp response ''isError'' = JBool True);
          expected = expectedError evalCase
      in if expected = JUndefined then
           Inr \<lparr>pass = True, details = Some ''No error expectation defined, skipping''\<rparr>
         else if \<not> hasError then
           Inr \<lparr>pass = False,
                details = Some ''Expected tool to return isError: true, but it returned success''\<rparr>
         else if expected = JBool True then
           Inr \<lparr>pass = True, details = Some ''Tool correctly returned an error as expected''\<rparr>
         else
           (case (case expected of JStr s \<Rightarrow> Some [expected] | JArr xs \<Rightarrow> Some xs | _ \<Rightarrow> None) of
              Some patterns \<Rightarrow>
                (case extractTextFromResponse response of
                   Inl e \<Rightarrow> Inl e
                 | Inr errorText \<Rightarrow>
                     (case substrings_of patterns of
                        Inl e \<Rightarrow> Inl e
                      | Inr substrings \<Rightarrow>
                          (let missing = findMissingSubstrings errorText substrings False
                           in if length missing > 0 then
                                Inr \<lparr>pass = False,
                                     details = Some (''Error message missing expected content: '' @
                                       join_strings '', '' (map (\<lambda>s. [CHR 0x22] @ s @ [CHR 0x22]) missing) @
                                       newline @ newline @ ''Actual error:'' @ newline @
                                       textPreview errorText)\<rparr>
                              else
                                Inr \<lparr>pass = True,
                                     details = Some ''Tool returned expected error with matching message''\<rparr>)))
            | None \<Rightarrow>
                Inr \<lparr>pass = True, details = Some ''Tool correctly returned an error as expected''\<rparr>))"

subsection \<open>Case validation (\<open>EvalCaseSchema\<close>)\<close>

text \<open>
  \<open>validateEvalCase\<close> is \<open>EvalCaseSchema.parse\<close>. The schema is a Zod object schema in its
  default mode: the input has to be an object, every listed key is checked by its own
  parser, and the parsed value holds the listed keys only (keys the schema does not
  list are stripped). A failure is a \<open>ZodError\<close>, kept here as the top-level keys of its
  issues in schema order. The schema lists no \<open>expectedError\<close> key, so the parsed case has none.
\<close>

fun zod_string :: "jsval \<Rightarrow> string option" where
  "zod_string (JStr s) = Some s"
| "zod_string v = None"

definition zod_string_min1 :: "jsval \<Rightarrow> string option" where
  "zod_string_min1 v = (case zod_string v of Some s \<Rightarrow> if 1 \<le> length s then Some s else None | None \<Rightarrow> None)"

fun zod_record :: "jsval \<Rightarrow> (string \<times> jsval) list option" where
  "zod_record (JObj ps) = Some ps"
| "zod_record v = None"

fun string_elements :: "jsval list \<Rightarrow> string list option" where
  "string_elements [] = Some []"
| "string_elements (JStr s # xs) = map_option ((#) s) (string_elements xs)"
| "string_elements (v # xs) = None"

fun zod_string_or_array :: "jsval \<Rightarrow> string_or_list option" where
  "zod_string_or_array (JStr s) = Some (OneString s)"
| "zod_string_or_array (JArr xs) = map_option ManyStrings (string_elements xs)"
| "zod_string_or_array v = None"

definition zod_optional :: "(jsval \<Rightarrow> 'a option) \<Rightarrow> jsval \<Rightarrow> 'a option option" where
  "zod_optional parser v = (if v = JUndefined then Some None else map_option Some (parser v))"

definition issue_at :: "string \<Rightarrow> 'a option \<Rightarrow> string list" where
  "issue_at path parsed = (case parsed of None \<Rightarrow> [path] | Some v \<Rightarrow> [])"

definition validateEvalCase :: "jsval \<Rightarrow> string list + EvalCase" where
  "validateEvalCase evalCase =
     (case evalCase of
        JObj ps \<Rightarrow>
          (let p_id = zod_string_min1 (getProp evalCase ''id'');
               p_description = zod_optional zod_string (getProp evalCase ''description'');
               p_toolName = zod_string_min1 (getProp evalCase ''toolName'');
               p_args = zod_record (getProp evalCase ''args'');
               p_expectedSchemaName = zod_optional zod_string (getProp evalCase ''expectedSchemaName'');
               p_judgeConfigId = zod_optional zod_string (getProp evalCase ''judgeConfigId'');
               p_expectedTextContains =
                 zod_optional zod_string_or_array (getProp evalCase ''expectedTextContains'');
               p_expectedRegex = zod_optional zod_string_or_array (getProp evalCase ''expectedRegex'');
               p_metadata = zod_optional zod_record (getProp evalCase ''metadata'')
           in case (p_id, p_description, p_toolName, p_args, p_expectedSchemaName,
                    p_judgeConfigId, p_expectedTextContains, p_expectedRegex, p_metadata) of
                (Some v_id, Some v_description, Some v_toolName, Some v_args,
                 Some v_expectedSchemaName, Some v_judgeConfigId, Some v_expectedTextContains,
                 Some v_expectedRegex, Some v_metadata) \<Rightarrow>
                  Inr \<lparr>caseId = v_id, description = v_description, toolName = v_toolName,
                       args = v_args, expectedExact = getProp evalCase ''expectedExact'',
                       expectedSchemaName = v_expectedSchemaName,
                       judgeConfigId = v_judgeConfigId,
                       expectedTextContains = v_expectedTextContains,
                       expectedRegex = v_expectedRegex, metadata = v_metadata,
                       expectedError = JUndefined\<rparr>
              | _ \<Rightarrow>
                  Inl (issue_at ''id'' p_id @ issue_at ''description'' p_description @
                       issue_at ''toolName'' p_toolName @ issue_at ''args'' p_args @
                       issue_at ''expectedSchemaName'' p_expectedSchemaName @
                       issue_at ''judgeConfigId'' p_judgeConfigId @
                       issue_at ''expectedTextContains'' p_expectedTextContains @
                       issue_at ''expectedRegex'' p_expectedRegex @
                       issue_at ''metadata'' p_metadata))
      | _ \<Rightarrow> Inl [[]])"

section \<open>Eval runner (evalRunner)\<close>

text \<open>
  The tool call, the expectation functions, the per-case callback and the clock are
  effects of the host. They act on a world state \<open>'w\<close> that is passed along in the order
  in which the code awaits them; each returns its outcome (a thrown value on the left
  for a rejected promise) and the next world state.
\<close>

record CallToolResult =
  content :: jsval
  structuredContent :: jsval
  isError :: jsval

record 'w MCPFixtureApi =
  callTool :: "string \<Rightarrow> (string \<times> jsval) list \<Rightarrow> 'w \<Rightarrow> (thrown + CallToolResult) \<times> 'w"

record ('w, 'j) EvalExpectationContext =
  mcp :: "'w MCPFixtureApi"
  judgeClient :: "'j option"

type_synonym ('w, 'j) EvalExpectation =
  "('w, 'j) EvalExpectationContext \<Rightarrow> EvalCase \<Rightarrow> jsval \<Rightarrow> 'w \<Rightarrow> (thrown + EvalExpectationResult) \<times> 'w"

text \<open>
  A case result. \<open>expectations\<close> is the object the runner fills, as its properties in
  insertion order; \<open>error\<close> is \<open>None\<close> when undefined. The fields carry the prefix \<open>cr_\<close>.
\<close>

record EvalCaseResult =
  cr_id :: string
  cr_pass :: bool
  cr_response :: jsval
  cr_error :: "string option"
  cr_expectations :: "(string \<times> EvalExpectationResult) list"
  cr_durationMs :: int

record EvalRunnerResult =
  total :: nat
  passed :: nat
  failed :: nat
  caseResults :: "EvalCaseResult list"
  durationMs :: int

text \<open>
  The options object. \<open>expectations\<close> is the object the caller passes, read by property
  name; the runner reads the properties \<open>exact\<close>, \<open>schema\<close> and \<open>judge\<close>.
\<close>

record ('w, 'j) EvalRunnerOptions =
  dataset :: EvalDataset
  expectations :: "string \<rightharpoonup> ('w, 'j) EvalExpectation"
  optJudgeClient :: "'j option"
  stopOnFailure :: "bool option"
  onCaseComplete :: "(EvalCaseResult \<Rightarrow> 'w \<Rightarrow> (thrown + unit) \<times> 'w) option"

text \<open>
  One guarded expectation call: the \<open>try\<close>/\<open>catch\<close> around \<open>await expectations.k(...)\<close>.
  The handler builds the details with \<open>String(err)\<close>; when that conversion throws, the
  error leaves the handler and the run.
\<close>

definition runExpectation ::
  "string \<Rightarrow> ('w, 'j) EvalExpectation \<Rightarrow> ('w, 'j) EvalExpectationContext \<Rightarrow> EvalCase \<Rightarrow> jsval
     \<Rightarrow> 'w \<Rightarrow> (thrown + EvalExpectationResult) \<times> 'w" where
  "runExpectation label expectation enrichedContext evalCase response w =
     (case expectation enrichedContext evalCase response w of
        (Inr result, w') \<Rightarrow> (Inr result, w')
      | (Inl err, w') \<Rightarrow>
          (case String_of_thrown err of
             Inr s \<Rightarrow>
               (Inr \<lparr>pass = False,
                     details = Some (label @ '' expectation threw error: '' @ s)\<rparr>, w')
           | Inl e \<Rightarrow> (Inl e, w')))"

text \<open>
  \<open>if (expectations.k) { ... }\<close>: the slots written to \<open>expectationResults\<close> by one of
  the three blocks.
\<close>

definition runSlot ::
  "string \<Rightarrow> string \<Rightarrow> ('w, 'j) EvalExpectation option \<Rightarrow> ('w, 'j) EvalExpectationContext
     \<Rightarrow> EvalCase \<Rightarrow> jsval \<Rightarrow> 'w \<Rightarrow> (thrown + (string \<times> EvalExpectationResult) list) \<times> 'w" where
  "runSlot key label enabled enrichedContext evalCase response w =
     (case enabled of
        None \<Rightarrow> (Inr [], w)
      | Some expectation \<Rightarrow>
          (case runExpectation label expectation enrichedContext evalCase response w of
             (Inr result, w') \<Rightarrow> (Inr [(key, result)], w')
           | (Inl e, w') \<Rightarrow> (Inl e, w')))"

definition runExpectations ::
  "(string \<rightharpoonup> ('w, 'j) EvalExpectation) \<Rightarrow> ('w, 'j) EvalExpectationContext \<Rightarrow> EvalCase \<Rightarrow> jsval
     \<Rightarrow> 'w \<Rightarrow> (thrown + (string \<times> EvalExpectationResult) list) \<times> 'w" where
  "runExpectations exps enrichedContext evalCase response w =
     (case runSlot ''exact'' ''Exact'' (exps ''exact'') enrichedContext evalCase response w of
        (Inl e, w1) \<Rightarrow> (Inl e, w1)
      | (Inr r1, w1) \<Rightarrow>
     (case runSlot ''schema'' ''Schema'' (exps ''schema'') enrichedContext evalCase response w1 of
        (Inl e, w2) \<Rightarrow> (Inl e, w2)
      | (Inr r2, w2) \<Rightarrow>
     (case runSlot ''judge'' ''Judge'' (exps ''judge'') enrichedContext evalCase response w2 of
        (Inl e, w3) \<Rightarrow> (Inl e, w3)
      | (Inr r3, w3) \<Rightarrow> (Inr (r1 @ r2 @ r3), w3))))"

text \<open>\<open>!error\<close> for \<open>error: string | undefined\<close>: the empty string is falsy too.\<close>

fun falsy_error :: "string option \<Rightarrow> bool" where
  "falsy_error None = True"
| "falsy_error (Some msg) = (msg = [])"

text \<open>
  The tool call of a case with its handler: the response and the error message it
  leaves. The handler's \<open>String(err)\<close> can throw as well.
\<close>

definition callOutcome :: "thrown + CallToolResult \<Rightarrow> thrown + jsval \<times> string option" where
  "callOutcome called =
     (case called of
        Inr result \<Rightarrow>
          Inr (if isNullish (structuredContent result) then content result
               else structuredContent result, None)
      | Inl err \<Rightarrow>
          (case thrown_message err of
             Inr msg \<Rightarrow> Inr (JUndefined, Some msg)
           | Inl e \<Rightarrow> Inl e))"

text \<open>
  The body of the loop up to the construction of the case result; on the left, an error
  that leaves the loop.
\<close>

definition runCase ::
  "('w \<Rightarrow> int \<times> 'w) \<Rightarrow> ('w, 'j) EvalRunnerOptions \<Rightarrow> ('w, 'j) EvalExpectationContext
     \<Rightarrow> ('w, 'j) EvalExpectationContext \<Rightarrow> EvalCase \<Rightarrow> 'w \<Rightarrow> (thrown + EvalCaseResult) \<times> 'w" where
  "runCase dateNow options context enrichedContext evalCase w =
     (case dateNow w of (caseStartTime, w1) \<Rightarrow>
      (case callTool (mcp context) (toolName evalCase) (args evalCase) w1 of (called, w2) \<Rightarrow>
       (case callOutcome called of
          Inl e \<Rightarrow> (Inl e, w2)
        | Inr (response, error) \<Rightarrow>
            (case (if falsy_error error
                   then runExpectations (expectations options) enrichedContext evalCase response w2
                   else (Inr [], w2)) of
               (Inl e, w3) \<Rightarrow> (Inl e, w3)
             | (Inr expectationResults, w3) \<Rightarrow>
                 (let casePass = (falsy_error error \<and> list_all pass (map snd expectationResults))
                  in case dateNow w3 of (caseEndTime, w4) \<Rightarrow>
                       (Inr \<lparr>cr_id = caseId evalCase, cr_pass = casePass, cr_response = response,
                             cr_error = error, cr_expectations = expectationResults,
                             cr_durationMs = caseEndTime - caseStartTime\<rparr>, w4))))))"

text \<open>
  The loop over \<open>dataset.cases\<close>, with the accumulated \<open>caseResults\<close>. An error that
  leaves the loop body, or a callback that throws, ends the run with that error.
\<close>

fun runCases ::
  "('w \<Rightarrow> int \<times> 'w) \<Rightarrow> ('w, 'j) EvalRunnerOptions \<Rightarrow> ('w, 'j) EvalExpectationContext
     \<Rightarrow> ('w, 'j) EvalExpectationContext \<Rightarrow> EvalCase list \<Rightarrow> EvalCaseResult list \<Rightarrow> 'w
     \<Rightarrow> (thrown + EvalCaseResult list) \<times> 'w" where
  "runCases dateNow options context enrichedContext [] acc w = (Inr acc, w)"
| "runCases dateNow options context enrichedContext (evalCase # rest) acc w =
     (case runCase dateNow options context enrichedContext evalCase w of
        (Inl err, w1) \<Rightarrow> (Inl err, w1)
      | (Inr caseResult, w1) \<Rightarrow>
          (case (case onCaseComplete options of
                   None \<Rightarrow> (Inr (), w1)
                 | Some callback \<Rightarrow> callback caseResult w1) of
             (Inl err, w2) \<Rightarrow> (Inl err, w2)
           | (Inr u, w2) \<Rightarrow>
               if (case stopOnFailure options of None \<Rightarrow> False | Some b \<Rightarrow> b) \<and> \<not> cr_pass caseResult
               then (Inr (acc @ [caseResult]), w2)
               else runCases dateNow options context enrichedContext rest (acc @ [caseResult]) w2))"

definition runEvalDataset ::
  "('w \<Rightarrow> int \<times> 'w) \<Rightarrow> ('w, 'j) EvalRunnerOptions \<Rightarrow> ('w, 'j) EvalExpectationContext \<Rightarrow> 'w
     \<Rightarrow> (thrown + EvalRunnerResult) \<times> 'w" where
  "runEvalDataset dateNow options context w =
     (case dateNow w of (startTime, w0) \<Rightarrow>
       (let enrichedContext = context\<lparr>judgeClient :=
              (case optJudgeClient options of Some j \<Rightarrow> Some j | None \<Rightarrow> judgeClient context)\<rparr>
        in case runCases dateNow options context enrichedContext (cases (dataset options)) [] w0 of
             (Inl err, w1) \<Rightarrow> (Inl err, w1)
           | (Inr results, w1) \<Rightarrow>
               (let passedCount = length (filter (\<lambda>r. cr_pass r) results);
                    failedCount = length (filter (\<lambda>r. \<not> cr_pass r) results)
                in case dateNow w1 of (endTime, w2) \<Rightarrow>
                     (Inr \<lparr>total = length results, passed = passedCount, failed = failedCount,
                           caseResults = results, durationMs = endTime - startTime\<rparr>, w2))))"

section \<open>Predicates used in the statements\<close>


text \<open>The same tool with the \<open>isError\<close> flag of every result overwritten.\<close>

definition withIsError :: "jsval \<Rightarrow> 'w MCPFixtureApi \<Rightarrow> 'w MCPFixtureApi" where
  "withIsError flag api =
     api\<lparr>callTool := (\<lambda>name a w.
       case callTool api name a w of
         (Inr result, w') \<Rightarrow> (Inr (result\<lparr>isError := flag\<rparr>), w')
       | (Inl err, w') \<Rightarrow> (Inl err, w'))\<rparr>"

section \<open>Example inputs\<close>

text \<open>
  A small engine for the examples: a pattern is taken literally and matches where it
  occurs in the text; the pattern \<open>(\<close> does not compile.
\<close>

definition literalEngine :: "string RegExpEngine" where
  "literalEngine =
     \<lparr>RegExp_new = (\<lambda>pattern flags.
        if pattern = ''(''
        then Inl (ThrownError ''SyntaxError'' ''Invalid regular expression: /(/: Unterminated group'')
        else Inr pattern),
      RegExp_test = (\<lambda>regex txt. sublist regex txt)\<rparr>"

definition regexCase :: EvalCase where
  "regexCase = \<lparr>caseId = ''weather-format'', description = None, toolName = ''get_weather'',
     args = [], expectedExact = JUndefined, expectedSchemaName = None, judgeConfigId = None,
     expectedTextContains = None, expectedRegex = Some (ManyStrings [''Weather'', ''('']),
     metadata = None, expectedError = JUndefined\<rparr>"

text \<open>
  A world for the examples: the state is the clock, in milliseconds. Reading the clock
  takes one millisecond, an expectation call takes a hundred. The tool \<open>broken\<close> throws
  \<open>new Error('boom')\<close>, the tool \<open>silent\<close> throws \<open>new Error('')\<close>, the tool
  \<open>flagged\<close> returns an error result (\<open>isError: true\<close>), every other tool returns one
  text block.
\<close>

definition tickClock :: "nat \<Rightarrow> int \<times> nat" where
  "tickClock w = (int w, Suc w)"

definition exampleTool :: "nat MCPFixtureApi" where
  "exampleTool =
     \<lparr>callTool = (\<lambda>name a w.
        if name = ''broken'' then (Inl (ThrownError ''Error'' ''boom''), w)
        else if name = ''silent'' then (Inl (ThrownError ''Error'' []), w)
        else if name = ''flagged'' then
          (Inr \<lparr>content = JArr [JObj [(''type'', JStr ''text''), (''text'', JStr ''not found'')]],
                structuredContent = JUndefined, isError = JBool True\<rparr>, w)
        else (Inr \<lparr>content = JArr [JObj [(''type'', JStr ''text''), (''text'', JStr ''sunny'')]],
                   structuredContent = JUndefined, isError = JUndefined\<rparr>, w))\<rparr>"

definition exampleContext :: "(nat, unit) EvalExpectationContext" where
  "exampleContext = \<lparr>mcp = exampleTool, judgeClient = None\<rparr>"

definition plainCase :: "string \<Rightarrow> string \<Rightarrow> EvalCase" where
  "plainCase i t = \<lparr>caseId = i, description = None, toolName = t,
     args = [], expectedExact = JUndefined, expectedSchemaName = None, judgeConfigId = None,
     expectedTextContains = None, expectedRegex = None,
     metadata = None, expectedError = JUndefined\<rparr>"

definition passingExpectation :: "(nat, unit) EvalExpectation" where
  "passingExpectation ctx c r w = (Inr \<lparr>pass = True, details = None\<rparr>, w + 100)"

definition throwingExpectation :: "(nat, unit) EvalExpectation" where
  "throwingExpectation ctx c r w = (Inl (ThrownError ''Error'' ''bad config''), w + 100)"

text \<open>An expectation function that throws \<open>Object.create(null)\<close>.\<close>

definition opaqueThrowExpectation :: "(nat, unit) EvalExpectation" where
  "opaqueThrowExpectation ctx c r w = (Inl ThrownUnconvertible, w + 100)"

text \<open>
  An expectation function that passes exactly when its response argument is the content
  array of the tool \<open>flagged\<close>, and one that passes exactly when its response argument
  has \<open>isError === true\<close>.
\<close>

definition contentExpectation :: "(nat, unit) EvalExpectation" where
  "contentExpectation ctx c r w =
     (Inr \<lparr>pass = (r = JArr [JObj [(''type'', JStr ''text''), (''text'', JStr ''not found'')]]),
           details = None\<rparr>, w + 100)"

definition observingExpectation :: "(nat, unit) EvalExpectation" where
  "observingExpectation ctx c r w =
     (Inr \<lparr>pass = (getProp r ''isError'' = JBool True), details = None\<rparr>, w + 100)"

definition regexExpectation :: "(nat, unit) EvalExpectation" where
  "regexExpectation ctx c r w = (createRegexExpectation literalEngine ctx c r, w + 100)"

definition exampleOptions ::
  "(string \<rightharpoonup> (nat, unit) EvalExpectation) \<Rightarrow> EvalCase list \<Rightarrow> (nat, unit) EvalRunnerOptions" where
  "exampleOptions exps cs =
     \<lparr>dataset = \<lparr>datasetName = ''example'', cases = cs\<rparr>,
      expectations = exps, optJudgeClient = None, stopOnFailure = None,
      onCaseComplete = None\<rparr>"

definition failingCallback :: "EvalCaseResult \<Rightarrow> nat \<Rightarrow> (thrown + unit) \<times> nat" where
  "failingCallback caseResult w = (Inl (ThrownError ''Error'' ''disk full''), w)"

definition stopOptions :: "(nat, unit) EvalRunnerOptions" where
  "stopOptions =
     (exampleOptions Map.empty
        [plainCase ''A'' ''echo'', plainCase ''B'' ''broken'', plainCase ''C'' ''echo''])
     \<lparr>stopOnFailure := Some True\<rparr>"

text \<open>
  The dataset entry shown in the documentation of the error expectation:
  \<open>{id: "search-missing-query", toolName: "search", args: {}, expectedError: true}\<close>.
\<close>

definition errorDatasetCase :: jsval where
  "errorDatasetCase =
     JObj [(''id'', JStr ''search-missing-query''), (''toolName'', JStr ''search''),
           (''args'', JObj []), (''expectedError'', JBool True)]"

section \<open>The text extractor\<close>


lemma JSON_stringify_defined:
  "v \<noteq> JUndefined \<Longrightarrow> JSON_stringify v \<noteq> Inr None"
  by (cases v) (auto simp: JSON_stringify_def split: sum.splits)




text \<open>
  C5, as the claim states it, fails: for the object \<open>{content: [{type: "image"}]}\<close> the
  \<open>content\<close> array has no text element, and the extractor returns the serialization of
  the whole object, not of the \<open>content\<close> array.
\<close>

theorem extract_content_fallback_counterexample:
  "getProp (JObj [(''content'', JArr [JObj [(''type'', JStr ''image'')]])]) ''content''
     = JArr [JObj [(''type'', JStr ''image'')]]
   \<and> filter isTextPart [JObj [(''type'', JStr ''image'')]] = []
   \<and> extractTextFromResponse (JObj [(''content'', JArr [JObj [(''type'', JStr ''image'')]])])
       = stringified (JObj [(''content'', JArr [JObj [(''type'', JStr ''image'')]])])
   \<and> extractTextFromResponse (JObj [(''content'', JArr [JObj [(''type'', JStr ''image'')]])])
       \<noteq> stringified (JArr [JObj [(''type'', JStr ''image'')]])"
  by (simp add: stringified_def JSON_stringify_def textPartsOf_def isTextPart_def
      QuoteJSONString_def QuoteJSONChar_def)

text \<open>
  C5, amended: for an object response whose \<open>content\<close> field is an array with no element
  that passes the text filter (an object with \<open>type === 'text'\<close> and a \<open>text\<close> property),
  the extractor does not serialize the \<open>content\<close> array; it goes on with the remaining
  object rules: a non-nullish \<open>structuredContent\<close> is returned if it is a string and
  JSON-serialized otherwise; else a string \<open>text\<close> field is returned; else the whole
  object is JSON-serialized.
\<close>

theorem extract_object_content_without_text:
  assumes "getProp (JObj ps) ''content'' = JArr cs"
    and "filter isTextPart cs = []"
  shows "extractTextFromResponse (JObj ps) =
     (if \<not> isNullish (getProp (JObj ps) ''structuredContent'') then
        (case getProp (JObj ps) ''structuredContent'' of
           JStr s \<Rightarrow> Inr s
         | sc \<Rightarrow> stringified sc)
      else
        (case getProp (JObj ps) ''text'' of
           JStr t \<Rightarrow> Inr t
         | other \<Rightarrow> stringified (JObj ps)))"
proof -
  have "textPartsOf cs = []"
    using assms(2) by (simp add: textPartsOf_def)
  with assms(1) show ?thesis
    unfolding extractTextFromResponse.simps Let_def by simp
qed

theorem extract_object_content_without_text_witness:
  "getProp (JObj [(''content'', JArr [JObj [(''type'', JStr ''image'')]]), (''text'', JStr ''fallback'')])
      ''content'' = JArr [JObj [(''type'', JStr ''image'')]]
   \<and> filter isTextPart [JObj [(''type'', JStr ''image'')]] = []
   \<and> extractTextFromResponse
        (JObj [(''content'', JArr [JObj [(''type'', JStr ''image'')]]), (''text'', JStr ''fallback'')])
       = Inr ''fallback''"
proof -
  have h1: "getProp (JObj [(''content'', JArr [JObj [(''type'', JStr ''image'')]]),
              (''text'', JStr ''fallback'')]) ''content'' = JArr [JObj [(''type'', JStr ''image'')]]"
    by simp
  have h2: "filter isTextPart [JObj [(''type'', JStr ''image'')]] = []"
    by (simp add: isTextPart_def)
  show ?thesis
    using h1 h2 extract_object_content_without_text [OF h1 h2] by simp
qed




section \<open>The regex expectation\<close>

lemma failed_pattern_iff:
  "(case RegExp_new engine p ''m'' of Inr regex \<Rightarrow> \<not> RegExp_test engine regex txt | Inl error \<Rightarrow> True)
     \<longleftrightarrow> \<not> (\<exists>regex. RegExp_new engine p ''m'' = Inr regex \<and> RegExp_test engine regex txt)"
  by (cases "RegExp_new engine p ''m''") auto

lemma findFailedPatterns_set:
  "set (findFailedPatterns engine txt patterns) =
     {p \<in> set patterns. \<not> (\<exists>regex. RegExp_new engine p ''m'' = Inr regex \<and> RegExp_test engine regex txt)}"
  unfolding findFailedPatterns_def set_filter failed_pattern_iff ..

lemma findFailedPatterns_empty_iff:
  "findFailedPatterns engine txt patterns = [] \<longleftrightarrow>
     (\<forall>p \<in> set patterns. \<exists>regex. RegExp_new engine p ''m'' = Inr regex \<and> RegExp_test engine regex txt)"
  unfolding findFailedPatterns_def filter_empty_conv failed_pattern_iff by simp

text \<open>
  C8: the regex expectation compiles each expected pattern with the flag \<open>m\<close> and passes
  exactly when every pattern compiles and matches the extracted text. A pattern that
  does not compile is one of the failed patterns; the expectation still returns a result
  (it does not throw).
\<close>

theorem regex_expectation_all_patterns:
  assumes "expectedRegex evalCase = Some expected"
    and "extractTextFromResponse response = Inr txt"
  shows "(\<exists>d. createRegexExpectation engine ctx evalCase response =
           Inr \<lparr>pass = (\<forall>p \<in> set (case expected of ManyStrings ps \<Rightarrow> ps | OneString p \<Rightarrow> [p]).
                          \<exists>regex. RegExp_new engine p ''m'' = Inr regex \<and> RegExp_test engine regex txt),
                details = d\<rparr>)
       \<and> (\<forall>p \<in> set (case expected of ManyStrings ps \<Rightarrow> ps | OneString p \<Rightarrow> [p]).
            (\<exists>e. RegExp_new engine p ''m'' = Inl e) \<longrightarrow>
            p \<in> set (findFailedPatterns engine txt (case expected of ManyStrings ps \<Rightarrow> ps | OneString p \<Rightarrow> [p])))"
proof -
  let ?patterns = "case expected of ManyStrings ps \<Rightarrow> ps | OneString p \<Rightarrow> [p]"
  have "\<exists>d. createRegexExpectation engine ctx evalCase response =
           Inr \<lparr>pass = (findFailedPatterns engine txt ?patterns = []), details = d\<rparr>"
    using assms by (simp add: createRegexExpectation_def Let_def)
  moreover have "\<forall>p \<in> set ?patterns. (\<exists>e. RegExp_new engine p ''m'' = Inl e) \<longrightarrow>
      p \<in> set (findFailedPatterns engine txt ?patterns)"
    unfolding findFailedPatterns_set by auto
  ultimately show ?thesis
    unfolding findFailedPatterns_empty_iff by blast
qed

theorem regex_expectation_all_patterns_witness:
  "expectedRegex regexCase = Some (ManyStrings [''Weather'', ''(''])
   \<and> extractTextFromResponse (JStr ''## Weather'') = Inr ''## Weather''
   \<and> RegExp_new literalEngine ''Weather'' ''m'' = Inr ''Weather''
   \<and> RegExp_test literalEngine ''Weather'' ''## Weather''
   \<and> RegExp_new literalEngine ''('' ''m'' =
        Inl (ThrownError ''SyntaxError'' ''Invalid regular expression: /(/: Unterminated group'')
   \<and> (\<exists>d. createRegexExpectation literalEngine () regexCase (JStr ''## Weather'') =
         Inr \<lparr>pass = False, details = d\<rparr>)
   \<and> ''('' \<in> set (findFailedPatterns literalEngine ''## Weather'' [''Weather'', ''(''])"
proof -
  have h1: "expectedRegex regexCase = Some (ManyStrings [''Weather'', ''(''])"
    by (simp add: regexCase_def)
  have h2: "extractTextFromResponse (JStr ''## Weather'') = Inr ''## Weather''"
    by simp
  have h3: "RegExp_new literalEngine ''('' ''m'' =
        Inl (ThrownError ''SyntaxError'' ''Invalid regular expression: /(/: Unterminated group'')"
    by (simp add: literalEngine_def)
  have h4: "RegExp_new literalEngine ''Weather'' ''m'' = Inr ''Weather''"
    by (simp add: literalEngine_def)
  have h5: "RegExp_test literalEngine ''Weather'' ''## Weather''"
    by (simp add: literalEngine_def sublist_code(3))
  show ?thesis
    using h1 h2 h3 h4 h5 regex_expectation_all_patterns [OF h1 h2, of literalEngine "()"]
    by simp
qed

section \<open>Case validation and the error expectation\<close>

lemma assemble_cases:
  assumes "(case (a, b, c, d, e, f, g, h, i) of
      (Some va, Some vb, Some vc, Some vd, Some ve, Some vf, Some vg, Some vh, Some vi) \<Rightarrow>
        Inr (F va vb vc vd ve vf vg vh vi)
    | _ \<Rightarrow> Inl Y) = Inr x"
    and "\<And>va vb vc vd ve vf vg vh vi. P (F va vb vc vd ve vf vg vh vi)"
  shows "P x"
  using assms by (auto split: option.splits)

lemma validateEvalCase_expectedError:
  assumes "validateEvalCase v = Inr c"
  shows "expectedError c = JUndefined"
proof (cases v)
  case (JObj ps)
  from assms show ?thesis
    unfolding validateEvalCase_def Let_def JObj jsval.case
    by (rule assemble_cases) simp
qed (use assms in \<open>simp_all add: validateEvalCase_def\<close>)
lemma substrings_of_strings: "substrings_of (map JStr ss) = Inr ss"
  by (induction ss) simp_all

lemma findMissingSubstrings_empty_iff:
  "findMissingSubstrings txt ss False = [] \<longleftrightarrow>
     (\<forall>s \<in> set ss. sublist (toLowerCase s) (toLowerCase txt))"
  by (simp add: findMissingSubstrings_def filter_empty_conv)

text \<open>
  The error expectation itself: it skips exactly when \<open>expectedError\<close> is undefined,
  accepts any error for \<open>true\<close>, and for a string or a list of strings passes exactly
  when the lower-cased error text contains every lower-cased substring.
\<close>

lemma createErrorExpectation_skip:
  "createErrorExpectation ctx c r = Inr \<lparr>pass = True, details = Some ''No error expectation defined, skipping''\<rparr>
     \<longleftrightarrow> expectedError c = JUndefined"
proof
  assume "expectedError c = JUndefined"
  then show "createErrorExpectation ctx c r =
      Inr \<lparr>pass = True, details = Some ''No error expectation defined, skipping''\<rparr>"
    by (simp add: createErrorExpectation_def)
next
  assume skip: "createErrorExpectation ctx c r =
      Inr \<lparr>pass = True, details = Some ''No error expectation defined, skipping''\<rparr>"
  show "expectedError c = JUndefined"
  proof (rule ccontr)
    assume "expectedError c \<noteq> JUndefined"
    then have "createErrorExpectation ctx c r \<noteq>
      Inr \<lparr>pass = True, details = Some ''No error expectation defined, skipping''\<rparr>"
      by (simp add: createErrorExpectation_def Let_def
          split: option.splits sum.splits)
    with skip show False by simp
  qed
qed

lemma createErrorExpectation_any_error:
  assumes "getProp r ''isError'' = JBool True" and "expectedError c = JBool True"
  shows "createErrorExpectation ctx c r =
     Inr \<lparr>pass = True, details = Some ''Tool correctly returned an error as expected''\<rparr>"
  using assms by (simp add: createErrorExpectation_def)

lemma createErrorExpectation_substrings:
  assumes "getProp r ''isError'' = JBool True"
    and "expectedError c = JStr s \<and> ss = [s] \<or> expectedError c = JArr (map JStr ss)"
    and "extractTextFromResponse r = Inr txt"
  shows "\<exists>d. createErrorExpectation ctx c r =
     Inr \<lparr>pass = (\<forall>s \<in> set ss. sublist (toLowerCase s) (toLowerCase txt)), details = d\<rparr>"
proof -
  have se: "substrings_of (case expectedError c of JArr xs \<Rightarrow> xs | v \<Rightarrow> [v]) = Inr ss"
    using assms(2) substrings_of_strings [of ss] by auto
  have "findMissingSubstrings txt ss False = [] \<longleftrightarrow>
     (\<forall>s \<in> set ss. sublist (toLowerCase s) (toLowerCase txt))"
    by (rule findMissingSubstrings_empty_iff)
  then show ?thesis
    using assms se substrings_of_strings [of ss]
    by (auto simp: createErrorExpectation_def Let_def)
qed

text \<open>
  C4 at a failing input. The case schema lists no \<open>expectedError\<close> key, so validation
  accepts the documented dataset entry with \<open>expectedError: true\<close> and returns a case
  without the field. On the validated case the error expectation skips (and passes) for
  a tool response that is not an error; with the field kept it fails there.
\<close>

theorem validateEvalCase_strips_expectedError:
  "getProp errorDatasetCase ''expectedError'' = JBool True
   \<and> validateEvalCase errorDatasetCase = Inr (plainCase ''search-missing-query'' ''search'')
   \<and> expectedError (plainCase ''search-missing-query'' ''search'') = JUndefined
   \<and> createErrorExpectation () (plainCase ''search-missing-query'' ''search'')
        (JObj [(''content'', JArr [JObj [(''type'', JStr ''text''), (''text'', JStr ''3 results'')]])]) =
      Inr \<lparr>pass = True, details = Some ''No error expectation defined, skipping''\<rparr>
   \<and> createErrorExpectation () ((plainCase ''search-missing-query'' ''search'')\<lparr>expectedError := JBool True\<rparr>)
        (JObj [(''content'', JArr [JObj [(''type'', JStr ''text''), (''text'', JStr ''3 results'')]])]) =
      Inr \<lparr>pass = False,
           details = Some ''Expected tool to return isError: true, but it returned success''\<rparr>"
  by (simp add: errorDatasetCase_def validateEvalCase_def zod_string_min1_def zod_optional_def
      plainCase_def createErrorExpectation_def Let_def)

section \<open>The eval runner\<close>

lemmas example_defs = runEvalDataset_def runCase_def callOutcome_def runExpectations_def runSlot_def
  runExpectation_def stopOptions_def exampleOptions_def exampleContext_def exampleTool_def
  tickClock_def plainCase_def passingExpectation_def throwingExpectation_def
  opaqueThrowExpectation_def contentExpectation_def
  observingExpectation_def regexExpectation_def failingCallback_def thrown_message_def Let_def


subsection \<open>The loop\<close>

lemma runCase_id:
  assumes "runCase dn opts ctx ectx c w = (Inr cr, w')"
  shows "cr_id cr = caseId c"
  using assms
  by (auto simp: runCase_def Let_def split: prod.splits sum.splits if_splits)

lemma runCases_results:
  assumes "runCases dn opts ctx ectx cs acc w = (Inr res, w')"
  shows "\<exists>new. res = acc @ new
      \<and> length new \<le> length cs
      \<and> map cr_id new = take (length new) (map caseId cs)
      \<and> (\<forall>i < length new. \<exists>wi wi'. runCase dn opts ctx ectx (cs ! i) wi = (Inr (new ! i), wi'))
      \<and> (stopOnFailure opts = Some True \<longrightarrow>
            (\<forall>i. Suc i < length new \<longrightarrow> cr_pass (new ! i))
          \<and> (length new < length cs \<longrightarrow> new \<noteq> [] \<and> \<not> cr_pass (last new)))
      \<and> (stopOnFailure opts \<noteq> Some True \<longrightarrow> length new = length cs)"
  using assms
proof (induction cs arbitrary: acc w)
  case Nil
  then show ?case by simp
next
  case (Cons c cs)
  obtain o1 w1 where rc: "runCase dn opts ctx ectx c w = (o1, w1)"
    by (cases "runCase dn opts ctx ectx c w")
  show ?case
  proof (cases o1)
    case (Inl e)
    with Cons.prems rc show ?thesis by simp
  next
    case o1: (Inr cr)
    have rcr: "runCase dn opts ctx ectx c w = (Inr cr, w1)"
      using rc o1 by simp
    have crid: "cr_id cr = caseId c"
      using runCase_id [OF rcr] .
    obtain cbres w2 where cb: "(case onCaseComplete opts of None \<Rightarrow> (Inr (), w1)
         | Some callback \<Rightarrow> callback cr w1) = (cbres, w2)"
      by (cases "(case onCaseComplete opts of None \<Rightarrow> (Inr (), w1)
         | Some callback \<Rightarrow> callback cr w1)")
    show ?thesis
    proof (cases cbres)
      case (Inl e)
      with Cons.prems rcr cb show ?thesis by simp
    next
      case (Inr u)
      show ?thesis
      proof (cases "(case stopOnFailure opts of None \<Rightarrow> False | Some b \<Rightarrow> b) \<and> \<not> cr_pass cr")
        case True
        with Cons.prems rcr cb Inr have res: "res = acc @ [cr]" by simp
        from True have stop: "stopOnFailure opts = Some True"
          by (auto split: option.splits)
        have link: "\<forall>i < length [cr]. \<exists>wi wi'. runCase dn opts ctx ectx ((c # cs) ! i) wi = (Inr ([cr] ! i), wi')"
          using rcr by auto
        show ?thesis
          by (rule exI [of _ "[cr]"]) (use res crid True stop link in auto)
      next
        case False
        with Cons.prems rcr cb Inr
        have "runCases dn opts ctx ectx cs (acc @ [cr]) w2 = (Inr res, w')"
          by simp
        from Cons.IH [OF this] obtain new where new: "res = (acc @ [cr]) @ new"
          "length new \<le> length cs"
          "map cr_id new = take (length new) (map caseId cs)"
          "\<forall>i < length new. \<exists>wi wi'. runCase dn opts ctx ectx (cs ! i) wi = (Inr (new ! i), wi')"
          "stopOnFailure opts = Some True \<longrightarrow>
              (\<forall>i. Suc i < length new \<longrightarrow> cr_pass (new ! i))
            \<and> (length new < length cs \<longrightarrow> new \<noteq> [] \<and> \<not> cr_pass (last new))"
          "stopOnFailure opts \<noteq> Some True \<longrightarrow> length new = length cs"
          by blast
        have passcr: "stopOnFailure opts = Some True \<Longrightarrow> cr_pass cr"
          using False by simp
        have nth: "stopOnFailure opts = Some True \<Longrightarrow>
            \<forall>i. Suc i < length (cr # new) \<longrightarrow> cr_pass ((cr # new) ! i)"
        proof (intro allI impI)
          fix i assume s: "stopOnFailure opts = Some True" and i: "Suc i < length (cr # new)"
          show "cr_pass ((cr # new) ! i)"
          proof (cases i)
            case 0
            then show ?thesis using passcr s by simp
          next
            case (Suc j)
            then show ?thesis using new(5) s i by simp
          qed
        qed
        have link: "\<forall>i < length (cr # new).
            \<exists>wi wi'. runCase dn opts ctx ectx ((c # cs) ! i) wi = (Inr ((cr # new) ! i), wi')"
        proof (intro allI impI)
          fix i assume i: "i < length (cr # new)"
          show "\<exists>wi wi'. runCase dn opts ctx ectx ((c # cs) ! i) wi = (Inr ((cr # new) ! i), wi')"
          proof (cases i)
            case 0
            then show ?thesis using rcr by auto
          next
            case (Suc j)
            then show ?thesis using new(4) i by simp
          qed
        qed
        show ?thesis
          by (rule exI [of _ "cr # new"]) (use new(1,2,3,5,6) crid nth link in auto)
      qed
    qed
  qed
qed

lemma runEvalDataset_Inr:
  assumes "runEvalDataset dn opts ctx w = (Inr result, w')"
  shows "\<exists>w0 w1. runCases dn opts ctx
        (ctx\<lparr>judgeClient := (case optJudgeClient opts of Some j \<Rightarrow> Some j | None \<Rightarrow> judgeClient ctx)\<rparr>)
        (cases (dataset opts)) [] w0 = (Inr (caseResults result), w1)
     \<and> EvalRunnerResult.total result = length (caseResults result)
     \<and> passed result = length (filter cr_pass (caseResults result))
     \<and> failed result = length (filter (\<lambda>r. \<not> cr_pass r) (caseResults result))"
  using assms
  by (fastforce simp: runEvalDataset_def Let_def split: prod.splits sum.splits)


text \<open>
  C9: a run that returns a result has \<open>total = passed + failed = caseResults.length\<close>,
  where \<open>passed\<close> counts the case results with \<open>pass = true\<close> and \<open>failed\<close> those with
  \<open>pass = false\<close>, and the case results follow the dataset order: their ids are the ids
  of the first cases of the dataset, in order.
\<close>

theorem runEvalDataset_totals:
  assumes "runEvalDataset dateNow options ctx w = (Inr result, w')"
  shows "EvalRunnerResult.total result = passed result + failed result
       \<and> EvalRunnerResult.total result = length (caseResults result)
       \<and> passed result = length (filter cr_pass (caseResults result))
       \<and> failed result = length (filter (\<lambda>r. \<not> cr_pass r) (caseResults result))
       \<and> map cr_id (caseResults result) =
           take (length (caseResults result)) (map caseId (cases (dataset options)))"
proof -
  from runEvalDataset_Inr [OF assms] obtain w0 w1 where
    run: "runCases dateNow options ctx
      (ctx\<lparr>judgeClient := (case optJudgeClient options of Some j \<Rightarrow> Some j | None \<Rightarrow> judgeClient ctx)\<rparr>)
      (cases (dataset options)) [] w0 = (Inr (caseResults result), w1)"
    and tot: "EvalRunnerResult.total result = length (caseResults result)"
    and pas: "passed result = length (filter cr_pass (caseResults result))"
    and fai: "failed result = length (filter (\<lambda>r. \<not> cr_pass r) (caseResults result))"
    by blast
  have sum: "length (filter cr_pass (caseResults result)) +
      length (filter (\<lambda>r. \<not> cr_pass r) (caseResults result)) = length (caseResults result)"
    by (rule sum_length_filter_compl)
  from runCases_results [OF run]
  have ord: "map cr_id (caseResults result) =
      take (length (caseResults result)) (map caseId (cases (dataset options)))"
    by auto
  show ?thesis using tot pas fai sum ord by simp
qed

theorem runEvalDataset_totals_witness:
  "(\<exists>result w'. runEvalDataset tickClock stopOptions exampleContext 0 = (Inr result, w')
      \<and> EvalRunnerResult.total result = 2 \<and> passed result = 1 \<and> failed result = 1
      \<and> map cr_id (caseResults result) = [''A'', ''B''])"
proof -
  obtain result w' where run: "runEvalDataset tickClock stopOptions exampleContext 0 = (Inr result, w')"
    by (simp add: example_defs)
  have ids: "map cr_id (caseResults result) = [''A'', ''B'']"
    using run by (auto simp: example_defs)
  have two: "length (caseResults result) = 2"
    using ids by (metis length_map length_Cons list.size(3) numeral_2_eq_2)
  have "passed result = 1"
    using run by (auto simp: example_defs)
  then show ?thesis
    using run ids two runEvalDataset_totals [OF run] by auto
qed

text \<open>
  C7: with \<open>stopOnFailure\<close> set, a run that returns a result stops right after the first
  failing case: a failing case result is the last one, a run with fewer results than
  cases ends in a failing result, the results are those of the first cases of the
  dataset in order, and \<open>total\<close> is their number. The witness is the run on the cases
  A (passes), B (fails), C (passes), which yields the results of A and B and \<open>total = 2\<close>.
\<close>

theorem stopOnFailure_stops_at_first_failure:
  assumes "runEvalDataset dateNow options ctx w = (Inr result, w')"
    and "stopOnFailure options = Some True"
  shows "(\<forall>i. i < length (caseResults result) \<and> \<not> cr_pass (caseResults result ! i)
              \<longrightarrow> Suc i = length (caseResults result))
       \<and> (length (caseResults result) < length (cases (dataset options))
              \<longrightarrow> caseResults result \<noteq> [] \<and> \<not> cr_pass (last (caseResults result)))
       \<and> map cr_id (caseResults result) =
           take (length (caseResults result)) (map caseId (cases (dataset options)))
       \<and> EvalRunnerResult.total result = length (caseResults result)"
proof -
  from runEvalDataset_Inr [OF assms(1)] obtain w0 w1 where
    run: "runCases dateNow options ctx
      (ctx\<lparr>judgeClient := (case optJudgeClient options of Some j \<Rightarrow> Some j | None \<Rightarrow> judgeClient ctx)\<rparr>)
      (cases (dataset options)) [] w0 = (Inr (caseResults result), w1)"
    and tot: "EvalRunnerResult.total result = length (caseResults result)"
    by blast
  from runCases_results [OF run] assms(2)
  have before: "\<forall>i. Suc i < length (caseResults result) \<longrightarrow> cr_pass (caseResults result ! i)"
    and early: "length (caseResults result) < length (cases (dataset options))
              \<longrightarrow> caseResults result \<noteq> [] \<and> \<not> cr_pass (last (caseResults result))"
    and ord: "map cr_id (caseResults result) =
           take (length (caseResults result)) (map caseId (cases (dataset options)))"
    by auto
  have "\<forall>i. i < length (caseResults result) \<and> \<not> cr_pass (caseResults result ! i)
              \<longrightarrow> Suc i = length (caseResults result)"
    using before by (metis Suc_lessI)
  with early ord tot show ?thesis by blast
qed

theorem stopOnFailure_stops_at_first_failure_witness:
  "stopOnFailure stopOptions = Some True
   \<and> map caseId (cases (dataset stopOptions)) = [''A'', ''B'', ''C'']
   \<and> (\<exists>result w'. runEvalDataset tickClock stopOptions exampleContext 0 = (Inr result, w')
        \<and> map cr_id (caseResults result) = [''A'', ''B'']
        \<and> map cr_pass (caseResults result) = [True, False]
        \<and> EvalRunnerResult.total result = 2)"
proof -
  have stop: "stopOnFailure stopOptions = Some True"
    by (simp add: stopOptions_def)
  have ds: "map caseId (cases (dataset stopOptions)) = [''A'', ''B'', ''C'']"
    by (simp add: stopOptions_def exampleOptions_def plainCase_def)
  obtain result w' where run: "runEvalDataset tickClock stopOptions exampleContext 0 = (Inr result, w')"
    by (simp add: example_defs)
  have ids: "map cr_id (caseResults result) = [''A'', ''B'']"
    using run by (auto simp: example_defs)
  have ps: "map cr_pass (caseResults result) = [True, False]"
    using run by (auto simp: example_defs)
  have two: "length (caseResults result) = 2"
    using ids by (metis length_map length_Cons list.size(3) numeral_2_eq_2)
  show ?thesis
    using stop ds run ids ps two stopOnFailure_stops_at_first_failure [OF run stop] by auto
qed

text \<open>
  C2 at a failing input. The runner tests \<open>!error\<close> on the recorded message, so a tool
  call that throws an error with an empty message (\<open>new Error('')\<close>) is treated as a
  success: the enabled \<open>exact\<close> expectation is invoked with an undefined response and the
  case is marked \<open>pass = true\<close>. The same run with a tool that throws
  \<open>new Error('boom')\<close> records the message, runs no expectation and fails the case.
\<close>

theorem tool_throw_empty_message_runs_expectations:
  "callTool (mcp exampleContext) ''silent'' [] 2 = (Inl (ThrownError ''Error'' []), 2)
   \<and> runEvalDataset tickClock
        (exampleOptions [''exact'' \<mapsto> passingExpectation] [plainCase ''x-case'' ''silent''])
        exampleContext 0 =
      (Inr \<lparr>total = 1, passed = 1, failed = 0,
            caseResults =
              [\<lparr>cr_id = ''x-case'', cr_pass = True, cr_response = JUndefined, cr_error = Some [],
                cr_expectations = [(''exact'', \<lparr>pass = True, details = None\<rparr>)],
                cr_durationMs = 101\<rparr>],
            durationMs = 103\<rparr>, 104)
   \<and> callTool (mcp exampleContext) ''broken'' [] 2 = (Inl (ThrownError ''Error'' ''boom''), 2)
   \<and> runEvalDataset tickClock
        (exampleOptions [''exact'' \<mapsto> passingExpectation] [plainCase ''x-case'' ''broken''])
        exampleContext 0 =
      (Inr \<lparr>total = 1, passed = 0, failed = 1,
            caseResults =
              [\<lparr>cr_id = ''x-case'', cr_pass = False, cr_response = JUndefined,
                cr_error = Some ''boom'', cr_expectations = [], cr_durationMs = 1\<rparr>],
            durationMs = 3\<rparr>, 4)"
  by (simp add: example_defs)

text \<open>
  C1 at a failing input. The options enable the \<open>regex\<close> kind, and the regex expectation
  fails on the response of the case, but the runner reads only \<open>exact\<close>, \<open>schema\<close> and
  \<open>judge\<close>: it never calls the function, records no \<open>regex\<close> slot, and the case passes.
\<close>

theorem runner_ignores_regex_expectation:
  "expectations (exampleOptions [''regex'' \<mapsto> regexExpectation] [regexCase]) ''regex'' =
      Some regexExpectation
   \<and> (\<exists>d. fst (regexExpectation exampleContext regexCase
          (JArr [JObj [(''type'', JStr ''text''), (''text'', JStr ''sunny'')]]) 2) =
        Inr \<lparr>pass = False, details = d\<rparr>)
   \<and> runEvalDataset tickClock (exampleOptions [''regex'' \<mapsto> regexExpectation] [regexCase])
        exampleContext 0 =
      (Inr \<lparr>total = 1, passed = 1, failed = 0,
            caseResults =
              [\<lparr>cr_id = ''weather-format'', cr_pass = True,
                cr_response = JArr [JObj [(''type'', JStr ''text''), (''text'', JStr ''sunny'')]],
                cr_error = None, cr_expectations = [], cr_durationMs = 1\<rparr>],
            durationMs = 3\<rparr>, 4)"
  by (simp add: example_defs regexCase_def createRegexExpectation_def findFailedPatterns_def
      literalEngine_def textPartsOf_def isTextPart_def array_join_def sublist_code(3))


subsection \<open>The expectation slots\<close>

lemma runSlot_Inr:
  assumes "runSlot key label enabled ectx c r w = (Inr slots, w')"
  shows "w' = (case enabled of None \<Rightarrow> w | Some f \<Rightarrow> snd (f ectx c r w))"
    and "map fst slots = (if enabled = None then [] else [key])"
    and "\<And>k. k \<noteq> key \<Longrightarrow> map_of slots k = None"
    and "\<And>f res. enabled = Some f \<Longrightarrow> fst (f ectx c r w) = Inr res \<Longrightarrow> map_of slots key = Some res"
    and "\<And>f err. enabled = Some f \<Longrightarrow> fst (f ectx c r w) = Inl err \<Longrightarrow>
           \<exists>s. String_of_thrown err = Inr s \<and>
               map_of slots key = Some \<lparr>pass = False,
                 details = Some (label @ '' expectation threw error: '' @ s)\<rparr>"
  using assms
  by (auto simp: runSlot_def runExpectation_def split: option.splits prod.splits sum.splits)



lemma runExpectations_Inr:
  assumes "runExpectations exps ectx c r w = (Inr slots, w3)"
    and "v1 = (case exps ''exact'' of None \<Rightarrow> w | Some f \<Rightarrow> snd (f ectx c r w))"
    and "v2 = (case exps ''schema'' of None \<Rightarrow> v1 | Some f \<Rightarrow> snd (f ectx c r v1))"
  shows "map fst slots = filter (\<lambda>k. exps k \<noteq> None) [''exact'', ''schema'', ''judge'']"
    and "\<And>f res. exps ''exact'' = Some f \<Longrightarrow> fst (f ectx c r w) = Inr res \<Longrightarrow>
           map_of slots ''exact'' = Some res"
    and "\<And>f res. exps ''schema'' = Some f \<Longrightarrow> fst (f ectx c r v1) = Inr res \<Longrightarrow>
           map_of slots ''schema'' = Some res"
    and "\<And>f res. exps ''judge'' = Some f \<Longrightarrow> fst (f ectx c r v2) = Inr res \<Longrightarrow>
           map_of slots ''judge'' = Some res"
    and "\<And>f err. exps ''exact'' = Some f \<Longrightarrow> fst (f ectx c r w) = Inl err \<Longrightarrow>
           \<exists>s. String_of_thrown err = Inr s \<and> map_of slots ''exact'' =
             Some \<lparr>pass = False, details = Some (''Exact expectation threw error: '' @ s)\<rparr>"
    and "\<And>f err. exps ''schema'' = Some f \<Longrightarrow> fst (f ectx c r v1) = Inl err \<Longrightarrow>
           \<exists>s. String_of_thrown err = Inr s \<and> map_of slots ''schema'' =
             Some \<lparr>pass = False, details = Some (''Schema expectation threw error: '' @ s)\<rparr>"
    and "\<And>f err. exps ''judge'' = Some f \<Longrightarrow> fst (f ectx c r v2) = Inl err \<Longrightarrow>
           \<exists>s. String_of_thrown err = Inr s \<and> map_of slots ''judge'' =
             Some \<lparr>pass = False, details = Some (''Judge expectation threw error: '' @ s)\<rparr>"
proof -
  obtain r1 u1 where s1: "runSlot ''exact'' ''Exact'' (exps ''exact'') ectx c r w = (Inr r1, u1)"
    using assms(1) by (auto simp: runExpectations_def split: prod.splits sum.splits)
  obtain r2 u2 where s2: "runSlot ''schema'' ''Schema'' (exps ''schema'') ectx c r u1 = (Inr r2, u2)"
    using assms(1) s1 by (auto simp: runExpectations_def split: prod.splits sum.splits)
  obtain r3 u3 where s3: "runSlot ''judge'' ''Judge'' (exps ''judge'') ectx c r u2 = (Inr r3, u3)"
    using assms(1) s1 s2 by (auto simp: runExpectations_def split: prod.splits sum.splits)
  have all: "slots = r1 @ r2 @ r3"
    using assms(1) s1 s2 s3 by (simp add: runExpectations_def)
  have u1: "u1 = v1"
    using runSlot_Inr(1) [OF s1] assms(2) by simp
  have u2: "u2 = v2"
    using runSlot_Inr(1) [OF s2] assms(3) u1 by (simp split: option.splits)
  note k1 = runSlot_Inr(2) [OF s1] and k2 = runSlot_Inr(2) [OF s2] and k3 = runSlot_Inr(2) [OF s3]
  note n1 = runSlot_Inr(3) [OF s1] and n2 = runSlot_Inr(3) [OF s2] and n3 = runSlot_Inr(3) [OF s3]
  have look_exact: "map_of slots ''exact'' = map_of r1 ''exact''"
    using n2 [of "''exact''"] n3 [of "''exact''"] by (simp add: all map_add_def split: option.splits)
  have look_schema: "map_of slots ''schema'' = map_of r2 ''schema''"
    using n1 [of "''schema''"] n3 [of "''schema''"] by (simp add: all map_add_def split: option.splits)
  have look_judge: "map_of slots ''judge'' = map_of r3 ''judge''"
    using n1 [of "''judge''"] n2 [of "''judge''"] by (simp add: all map_add_def split: option.splits)
  show "map fst slots = filter (\<lambda>k. exps k \<noteq> None) [''exact'', ''schema'', ''judge'']"
    by (simp add: all k1 k2 k3)
  show "\<And>f res. exps ''exact'' = Some f \<Longrightarrow> fst (f ectx c r w) = Inr res \<Longrightarrow>
           map_of slots ''exact'' = Some res"
    using runSlot_Inr(4) [OF s1] look_exact by simp
  show "\<And>f res. exps ''schema'' = Some f \<Longrightarrow> fst (f ectx c r v1) = Inr res \<Longrightarrow>
           map_of slots ''schema'' = Some res"
    using runSlot_Inr(4) [OF s2] look_schema u1 by simp
  show "\<And>f res. exps ''judge'' = Some f \<Longrightarrow> fst (f ectx c r v2) = Inr res \<Longrightarrow>
           map_of slots ''judge'' = Some res"
    using runSlot_Inr(4) [OF s3] look_judge u2 by simp
  show "\<And>f err. exps ''exact'' = Some f \<Longrightarrow> fst (f ectx c r w) = Inl err \<Longrightarrow>
           \<exists>s. String_of_thrown err = Inr s \<and> map_of slots ''exact'' =
             Some \<lparr>pass = False, details = Some (''Exact expectation threw error: '' @ s)\<rparr>"
    using runSlot_Inr(5) [OF s1] look_exact by simp
  show "\<And>f err. exps ''schema'' = Some f \<Longrightarrow> fst (f ectx c r v1) = Inl err \<Longrightarrow>
           \<exists>s. String_of_thrown err = Inr s \<and> map_of slots ''schema'' =
             Some \<lparr>pass = False, details = Some (''Schema expectation threw error: '' @ s)\<rparr>"
    using runSlot_Inr(5) [OF s2] look_schema u1 by simp
  show "\<And>f err. exps ''judge'' = Some f \<Longrightarrow> fst (f ectx c r v2) = Inl err \<Longrightarrow>
           \<exists>s. String_of_thrown err = Inr s \<and> map_of slots ''judge'' =
             Some \<lparr>pass = False, details = Some (''Judge expectation threw error: '' @ s)\<rparr>"
    using runSlot_Inr(5) [OF s3] look_judge u2 by simp
qed



lemma runCase_success:
  assumes "dateNow w = (t0, w1)"
    and "callTool (mcp ctx) (toolName c) (args c) w1 = (Inr result, w2)"
    and "response =
      (if isNullish (structuredContent result) then content result else structuredContent result)"
  shows "runCase dateNow options ctx ectx c w =
     (case runExpectations (expectations options) ectx c response w2 of
        (Inl e, w3) \<Rightarrow> (Inl e, w3)
      | (Inr slots, w3) \<Rightarrow>
          (Inr \<lparr>cr_id = caseId c, cr_pass = list_all pass (map snd slots), cr_response = response,
                cr_error = None, cr_expectations = slots,
                cr_durationMs = fst (dateNow w3) - t0\<rparr>, snd (dateNow w3)))"
  using assms
  by (simp add: runCase_def callOutcome_def Let_def split: prod.splits sum.splits)











text \<open>
  C10: when the tool call of a case succeeds and the loop body returns a case result,
  the response of the case result is \<open>result.structuredContent ?? result.content\<close>, the
  slot of every enabled kind is the outcome of its expectation function called with this
  value as the response argument (its result, or the guarded slot when it throws), and
  the outcome of the loop body does not depend on the \<open>isError\<close> flag of the tool result.
  Every case result of a run that returns is the result of the loop body on the case at
  its position.
\<close>

theorem runner_passes_narrowed_response:
  assumes "dateNow w = (t0, w1)"
    and "callTool (mcp ctx) (toolName c) (args c) w1 = (Inr result, w2)"
    and "response =
      (if isNullish (structuredContent result) then content result else structuredContent result)"
    and "v1 = (case expectations options ''exact'' of None \<Rightarrow> w2
               | Some f \<Rightarrow> snd (f ectx c response w2))"
    and "v2 = (case expectations options ''schema'' of None \<Rightarrow> v1
               | Some f \<Rightarrow> snd (f ectx c response v1))"
    and "runCase dateNow options ctx ectx c w = (Inr caseResult, w')"
  shows "cr_response caseResult = response
     \<and> cr_error caseResult = None
     \<and> map fst (cr_expectations caseResult) =
         filter (\<lambda>k. expectations options k \<noteq> None) [''exact'', ''schema'', ''judge'']
     \<and> (\<forall>f res. expectations options ''exact'' = Some f \<and> fst (f ectx c response w2) = Inr res
           \<longrightarrow> map_of (cr_expectations caseResult) ''exact'' = Some res)
     \<and> (\<forall>f res. expectations options ''schema'' = Some f \<and> fst (f ectx c response v1) = Inr res
           \<longrightarrow> map_of (cr_expectations caseResult) ''schema'' = Some res)
     \<and> (\<forall>f res. expectations options ''judge'' = Some f \<and> fst (f ectx c response v2) = Inr res
           \<longrightarrow> map_of (cr_expectations caseResult) ''judge'' = Some res)
     \<and> (\<forall>f err. expectations options ''exact'' = Some f \<and> fst (f ectx c response w2) = Inl err
           \<longrightarrow> (\<exists>s. String_of_thrown err = Inr s \<and> map_of (cr_expectations caseResult) ''exact'' =
                 Some \<lparr>pass = False, details = Some (''Exact expectation threw error: '' @ s)\<rparr>))
     \<and> (\<forall>f err. expectations options ''schema'' = Some f \<and> fst (f ectx c response v1) = Inl err
           \<longrightarrow> (\<exists>s. String_of_thrown err = Inr s \<and> map_of (cr_expectations caseResult) ''schema'' =
                 Some \<lparr>pass = False, details = Some (''Schema expectation threw error: '' @ s)\<rparr>))
     \<and> (\<forall>f err. expectations options ''judge'' = Some f \<and> fst (f ectx c response v2) = Inl err
           \<longrightarrow> (\<exists>s. String_of_thrown err = Inr s \<and> map_of (cr_expectations caseResult) ''judge'' =
                 Some \<lparr>pass = False, details = Some (''Judge expectation threw error: '' @ s)\<rparr>))
     \<and> runCase dateNow options (ctx\<lparr>mcp := withIsError flag (mcp ctx)\<rparr>) ectx c w =
         runCase dateNow options ctx ectx c w
     \<and> (\<forall>runResult wend. runEvalDataset dateNow options ctx w0 = (Inr runResult, wend) \<longrightarrow>
          (\<forall>i < length (caseResults runResult). \<exists>wi wi'.
             runCase dateNow options ctx (ctx\<lparr>judgeClient :=
                 (case optJudgeClient options of Some j \<Rightarrow> Some j | None \<Rightarrow> judgeClient ctx)\<rparr>)
               (cases (dataset options) ! i) wi = (Inr (caseResults runResult ! i), wi')))"
proof -
  note rs = runCase_success [where dateNow = dateNow and w = w and options = options and ectx = ectx,
      OF assms(1) assms(2) assms(3)]
  obtain w3 where re: "runExpectations (expectations options) ectx c response w2 =
      (Inr (cr_expectations caseResult), w3)"
    and resp: "cr_response caseResult = response"
    and err: "cr_error caseResult = None"
    using rs assms(6) by (auto split: prod.splits sum.splits)
  note sl = runExpectations_Inr [OF re assms(4) assms(5)]
  have same: "runCase dateNow options (ctx\<lparr>mcp := withIsError flag (mcp ctx)\<rparr>) ectx c w =
         runCase dateNow options ctx ectx c w"
    by (simp add: runCase_def callOutcome_def withIsError_def Let_def split: prod.splits sum.splits)
  have link: "\<forall>runResult wend. runEvalDataset dateNow options ctx w0 = (Inr runResult, wend) \<longrightarrow>
          (\<forall>i < length (caseResults runResult). \<exists>wi wi'.
             runCase dateNow options ctx (ctx\<lparr>judgeClient :=
                 (case optJudgeClient options of Some j \<Rightarrow> Some j | None \<Rightarrow> judgeClient ctx)\<rparr>)
               (cases (dataset options) ! i) wi = (Inr (caseResults runResult ! i), wi'))"
  proof (intro allI impI)
    fix runResult wend i
    assume run: "runEvalDataset dateNow options ctx w0 = (Inr runResult, wend)"
      and i: "i < length (caseResults runResult)"
    from runEvalDataset_Inr [OF run] obtain wa wb where
      "runCases dateNow options ctx (ctx\<lparr>judgeClient :=
          (case optJudgeClient options of Some j \<Rightarrow> Some j | None \<Rightarrow> judgeClient ctx)\<rparr>)
        (cases (dataset options)) [] wa = (Inr (caseResults runResult), wb)"
      by blast
    from runCases_results [OF this] i
    show "\<exists>wi wi'. runCase dateNow options ctx (ctx\<lparr>judgeClient :=
                 (case optJudgeClient options of Some j \<Rightarrow> Some j | None \<Rightarrow> judgeClient ctx)\<rparr>)
               (cases (dataset options) ! i) wi = (Inr (caseResults runResult ! i), wi')"
      by auto
  qed
  show ?thesis
  proof (intro conjI)
    show "cr_response caseResult = response" by (rule resp)
    show "cr_error caseResult = None" by (rule err)
    show "map fst (cr_expectations caseResult) =
         filter (\<lambda>k. expectations options k \<noteq> None) [''exact'', ''schema'', ''judge'']"
      by (rule sl(1))
    show "runCase dateNow options (ctx\<lparr>mcp := withIsError flag (mcp ctx)\<rparr>) ectx c w =
         runCase dateNow options ctx ectx c w"
      by (rule same)
    show "\<forall>runResult wend. runEvalDataset dateNow options ctx w0 = (Inr runResult, wend) \<longrightarrow>
          (\<forall>i < length (caseResults runResult). \<exists>wi wi'.
             runCase dateNow options ctx (ctx\<lparr>judgeClient :=
                 (case optJudgeClient options of Some j \<Rightarrow> Some j | None \<Rightarrow> judgeClient ctx)\<rparr>)
               (cases (dataset options) ! i) wi = (Inr (caseResults runResult ! i), wi'))"
      by (rule link)
  qed (use sl(2) sl(3) sl(4) sl(5) sl(6) sl(7) in \<open>simp_all\<close>)
qed

theorem runner_passes_narrowed_response_witness:
  "tickClock 0 = (0, 1)
   \<and> callTool (mcp exampleContext) (toolName (plainCase ''x-case'' ''flagged''))
         (args (plainCase ''x-case'' ''flagged'')) 1 =
       (Inr \<lparr>content = JArr [JObj [(''type'', JStr ''text''), (''text'', JStr ''not found'')]],
             structuredContent = JUndefined, isError = JBool True\<rparr>, 1)
   \<and> fst (contentExpectation exampleContext (plainCase ''x-case'' ''flagged'')
         (JArr [JObj [(''type'', JStr ''text''), (''text'', JStr ''not found'')]]) 1) =
       Inr \<lparr>pass = True, details = None\<rparr>
   \<and> fst (observingExpectation exampleContext (plainCase ''x-case'' ''flagged'')
         (JArr [JObj [(''type'', JStr ''text''), (''text'', JStr ''not found'')]]) 101) =
       Inr \<lparr>pass = False, details = None\<rparr>
   \<and> runCase tickClock
         (exampleOptions [''exact'' \<mapsto> contentExpectation, ''schema'' \<mapsto> observingExpectation]
            [plainCase ''x-case'' ''flagged''])
         exampleContext exampleContext (plainCase ''x-case'' ''flagged'') 0 =
       (Inr \<lparr>cr_id = ''x-case'', cr_pass = False,
             cr_response = JArr [JObj [(''type'', JStr ''text''), (''text'', JStr ''not found'')]],
             cr_error = None,
             cr_expectations =
               [(''exact'', \<lparr>pass = True, details = None\<rparr>),
                (''schema'', \<lparr>pass = False, details = None\<rparr>)],
             cr_durationMs = 201\<rparr>, 202)
   \<and> runEvalDataset tickClock
         (exampleOptions [''exact'' \<mapsto> contentExpectation, ''schema'' \<mapsto> observingExpectation]
            [plainCase ''x-case'' ''flagged''])
         exampleContext 0 =
       (Inr \<lparr>total = 1, passed = 0, failed = 1,
             caseResults =
               [\<lparr>cr_id = ''x-case'', cr_pass = False,
                 cr_response = JArr [JObj [(''type'', JStr ''text''), (''text'', JStr ''not found'')]],
                 cr_error = None,
                 cr_expectations =
                   [(''exact'', \<lparr>pass = True, details = None\<rparr>),
                    (''schema'', \<lparr>pass = False, details = None\<rparr>)],
                 cr_durationMs = 201\<rparr>],
             durationMs = 203\<rparr>, 204)"
proof -
  let ?c = "plainCase ''x-case'' ''flagged''"
  let ?r = "JArr [JObj [(''type'', JStr ''text''), (''text'', JStr ''not found'')]]"
  let ?res = "\<lparr>content = ?r, structuredContent = JUndefined, isError = JBool True\<rparr>"
  let ?opts = "exampleOptions [''exact'' \<mapsto> contentExpectation, ''schema'' \<mapsto> observingExpectation] [?c]"
  let ?cr = "\<lparr>cr_id = ''x-case'', cr_pass = False, cr_response = ?r, cr_error = None,
             cr_expectations =
               [(''exact'', \<lparr>pass = True, details = None\<rparr>),
                (''schema'', \<lparr>pass = False, details = None\<rparr>)],
             cr_durationMs = 201\<rparr>"
  have h1: "tickClock 0 = (0, 1)"
    by (simp add: tickClock_def)
  have h2: "callTool (mcp exampleContext) (toolName ?c) (args ?c) 1 = (Inr ?res, 1)"
    by (simp add: exampleContext_def exampleTool_def plainCase_def)
  have h3: "?r = (if isNullish (structuredContent ?res) then content ?res else structuredContent ?res)"
    by simp
  have v1: "101 = (case expectations ?opts ''exact'' of None \<Rightarrow> 1
               | Some f \<Rightarrow> snd (f exampleContext ?c ?r 1))"
    by (simp add: exampleOptions_def contentExpectation_def)
  have v2: "201 = (case expectations ?opts ''schema'' of None \<Rightarrow> 101
               | Some f \<Rightarrow> snd (f exampleContext ?c ?r 101))"
    by (simp add: exampleOptions_def observingExpectation_def)
  have e1: "fst (contentExpectation exampleContext ?c ?r 1) = Inr \<lparr>pass = True, details = None\<rparr>"
    by (simp add: contentExpectation_def)
  have e2: "fst (observingExpectation exampleContext ?c ?r 101) = Inr \<lparr>pass = False, details = None\<rparr>"
    by (simp add: observingExpectation_def)
  have run: "runCase tickClock ?opts exampleContext exampleContext ?c 0 = (Inr ?cr, 202)"
    by (simp add: example_defs)
  have whole: "runEvalDataset tickClock ?opts exampleContext 0 =
       (Inr \<lparr>total = 1, passed = 0, failed = 1, caseResults = [?cr], durationMs = 203\<rparr>, 204)"
    by (simp add: example_defs)
  note inst = runner_passes_narrowed_response [where dateNow = tickClock and w = 0
      and ctx = exampleContext and ectx = exampleContext and c = ?c and options = ?opts,
      OF h1 h2 h3 v1 v2 run]
  show ?thesis
    using inst h1 h2 e1 e2 run whole by simp
qed

text \<open>
  A tool call that throws with a non-empty message: the message is recorded, the
  response stays undefined, no expectation runs and the case fails.
\<close>

lemma tool_throw_recorded:
  assumes "dateNow w = (t0, w1)"
    and "callTool (mcp ctx) (toolName c) (args c) w1 = (Inl err, w2)"
    and "thrown_message err = Inr msg"
    and "msg \<noteq> []"
    and "dateNow w2 = (t1, w3)"
  shows "runCase dateNow options ctx ectx c w =
     (Inr \<lparr>cr_id = caseId c, cr_pass = False, cr_response = JUndefined,
           cr_error = Some msg, cr_expectations = [],
           cr_durationMs = t1 - t0\<rparr>, w3)"
  using assms by (simp add: runCase_def callOutcome_def Let_def)

text \<open>The runner reads the properties \<open>exact\<close>, \<open>schema\<close> and \<open>judge\<close> of the options only.\<close>

lemma runExpectations_reads_three_keys:
  assumes "exps ''exact'' = exps' ''exact''"
    and "exps ''schema'' = exps' ''schema''"
    and "exps ''judge'' = exps' ''judge''"
  shows "runExpectations exps ectx c r w = runExpectations exps' ectx c r w"
  unfolding runExpectations_def assms ..

lemma runCase_reads_three_keys:
  assumes "expectations options ''exact'' = expectations options' ''exact''"
    and "expectations options ''schema'' = expectations options' ''schema''"
    and "expectations options ''judge'' = expectations options' ''judge''"
  shows "runCase dateNow options ctx ectx c w = runCase dateNow options' ctx ectx c w"
proof -
  have eq: "runExpectations (expectations options) = runExpectations (expectations options')"
    by (intro ext) (rule runExpectations_reads_three_keys [OF assms])
  show ?thesis
    unfolding runCase_def eq ..
qed

end
